theory Spec2Isabelle
  imports Main "HOL-Library.AList"
begin

section \<open>Results, errors and host strings\<close>

text \<open>
  Both pipelines return \<^verbatim>\<open>Result[..., str]\<close>: \<^verbatim>\<open>Success(v)\<close> or \<^verbatim>\<open>Failure(message)\<close>.
  Every \<^verbatim>\<open>Failure\<close> site of the source is a constructor of \<open>error\<close> that carries
  the values its f-string interpolates:
  \<^item> \<open>ConstraintParseError expr msg\<close>: "Error parsing constraint '{expr}': {e}"
  \<^item> \<open>SolveError msg\<close>: "Error solving constraints: {e}"
  \<^item> \<open>RelationNoFunction r\<close>: "Relation {r} has no Z3 function"
  \<^item> \<open>EntityNoConstant p\<close>: "Entity {p} has no Z3 constant"
  \<^item> \<open>SiblingNoFunction\<close>: "Sibling relation has no Z3 function"
  \<^item> \<open>AssertionsError exn\<close>: "Error adding relationship assertions: {e}"
  \<^item> \<open>InvalidQueryFormat q\<close>: "Invalid query format: {q}"
  \<^item> \<open>NotTwoEntities q\<close>: "Query must involve exactly two entities: {q}"
  \<^item> \<open>UnknownRelation r\<close>: "Unknown relation: {r}"
  \<^item> \<open>UnknownEntity n\<close>: "Unknown entity: {n}"
  \<^item> \<open>EvaluateError exn\<close>: "Error evaluating query: {e}"
  \<^item> \<open>AnalyzeError exn\<close>: "Error analyzing relationships: {e}"

  An exception caught by one of the \<^verbatim>\<open>except Exception as e\<close> handlers is a value of
  \<open>exn\<close>: a \<^verbatim>\<open>KeyError\<close> of a dictionary lookup with its key, or an exception raised by
  an external call (the Z3 binding, Python's \<^verbatim>\<open>eval\<close>) with its message.
\<close>

datatype exn = KeyError string | Raised string

datatype error =
    ConstraintParseError string exn
  | SolveError exn
  | RelationNoFunction string
  | EntityNoConstant string
  | SiblingNoFunction
  | AssertionsError exn
  | InvalidQueryFormat string
  | NotTwoEntities string
  | UnknownRelation string
  | UnknownEntity string
  | EvaluateError exn
  | AnalyzeError exn

text \<open>
  The remaining \<^verbatim>\<open>Failure\<close> sites of the source cannot be reached and have no constructor:
  \<^item> "Unsupported variable type" in \<^verbatim>\<open>create_variable\<close>: \<^verbatim>\<open>VariableType\<close> has the four members
    that the \<^verbatim>\<open>match\<close> handles;
  \<^item> the handlers of \<^verbatim>\<open>create_variable\<close>, \<^verbatim>\<open>create_entity\<close> and \<^verbatim>\<open>create_relation\<close>: the Z3
    term constructors are total on names;
  \<^item> the handlers of \<^verbatim>\<open>parse_query\<close>, \<^verbatim>\<open>extract_solution\<close> and \<^verbatim>\<open>solve_problem\<close> and the final
    "Unexpected error" of \<^verbatim>\<open>analyze_relationships\<close>: every call inside them returns a
    \<^verbatim>\<open>Result\<close> or \<^verbatim>\<open>Maybe\<close> value, and every dictionary lookup is guarded.
\<close>

abbreviation Failure :: "error \<Rightarrow> error + 'a" where
  "Failure \<equiv> Inl"

abbreviation Success :: "'a \<Rightarrow> error + 'a" where
  "Success \<equiv> Inr"

text \<open>
  Python strings are modelled as \<open>string\<close>; a \<open>char\<close> stands for a code point below 256.
  \<open>split_chr sep s\<close> is \<^verbatim>\<open>s.split(sep)\<close> for a one-character separator (the result is
  never empty, so the last case of its second equation is never taken) and \<open>strip\<close> is
  \<^verbatim>\<open>s.strip()\<close>, which removes the characters for which \<^verbatim>\<open>str.isspace\<close> holds.
\<close>

fun split_chr :: "char \<Rightarrow> string \<Rightarrow> string list" where
  "split_chr sep [] = [[]]"
| "split_chr sep (c # cs) =
     (if c = sep then [] # split_chr sep cs
      else (case split_chr sep cs of p # ps \<Rightarrow> (c # p) # ps | [] \<Rightarrow> [[c]]))"

definition is_space :: "char \<Rightarrow> bool" where
  "is_space c \<longleftrightarrow>
     c \<in> set [CHR 0x09, CHR 0x0A, CHR 0x0B, CHR 0x0C, CHR 0x0D, CHR 0x1C, CHR 0x1D,
               CHR 0x1E, CHR 0x1F, CHR 0x20, CHR 0x85, CHR 0xA0]"

definition strip :: "string \<Rightarrow> string" where
  "strip s = rev (dropWhile is_space (rev (dropWhile is_space s)))"

section \<open>The satisfiability backend\<close>

text \<open>
  The Z3 binding is an external collaborator. Its term constructors are modelled as
  datatype constructors: \<open>Const name sort\<close> is \<^verbatim>\<open>Const(name, sort)\<close> (so \<^verbatim>\<open>Int(name)\<close> is
  \<open>Const name IntSort\<close>), \<open>Function name sorts\<close> is \<^verbatim>\<open>Function(name, *sorts)\<close>, and
  \<open>BoolRef\<close> holds the Boolean terms the relationship pipeline builds.
\<close>

datatype Z3Sort = IntSort | RealSort | BoolSort | StringSort

datatype Z3Ref = Const string Z3Sort

datatype FuncDeclRef = Function string "Z3Sort list"

datatype BoolRef =
    Z3App FuncDeclRef Z3Ref Z3Ref
  | Z3Not BoolRef
  | Z3Implies BoolRef BoolRef
  | Z3ForAll "Z3Ref list" BoolRef

datatype CheckSatResult = sat | unsat | unknown

text \<open>
  A \<^verbatim>\<open>Solver\<close> object is its assertion stack: the asserted formulas, oldest first, and for
  every open scope the number of assertions at its \<^verbatim>\<open>push\<close>. \<open>calls\<close> records the
  calls made on the object. \<^verbatim>\<open>check\<close> is an oracle \<open>chk\<close> on the current assertions that
  returns a result or raises (\<open>Inl\<close>).
\<close>

datatype 'fm call = Push | Add 'fm | Check | Pop

record 'fm Solver =
  assertions :: "'fm list"
  scopes :: "nat list"
  calls :: "'fm call list"

type_synonym 'fm check_oracle = "'fm list \<Rightarrow> exn + CheckSatResult"

definition new_Solver :: "'fm Solver" where
  "new_Solver = \<lparr>assertions = [], scopes = [], calls = []\<rparr>"

definition push :: "'fm Solver \<Rightarrow> 'fm Solver" where
  "push s = s\<lparr>scopes := length (assertions s) # scopes s, calls := calls s @ [Push]\<rparr>"

definition add :: "'fm \<Rightarrow> 'fm Solver \<Rightarrow> 'fm Solver" where
  "add f s = s\<lparr>assertions := assertions s @ [f], calls := calls s @ [Add f]\<rparr>"

definition pop :: "'fm Solver \<Rightarrow> exn + 'fm Solver" where
  "pop s =
     (case scopes s of
        [] \<Rightarrow> Inl (Raised ''index out of bounds'')
      | n # ns \<Rightarrow>
          Inr (s\<lparr>assertions := take n (assertions s), scopes := ns, calls := calls s @ [Pop]\<rparr>))"

definition check :: "'fm check_oracle \<Rightarrow> 'fm Solver \<Rightarrow> 'fm Solver \<times> (exn + CheckSatResult)" where
  "check chk s = (s\<lparr>calls := calls s @ [Check]\<rparr>, chk (assertions s))"

section \<open>Relationship pipeline: data model\<close>

text \<open>
  The field \<^verbatim>\<open>value\<close> of \<^verbatim>\<open>Relationship\<close> is \<open>rel_value\<close>, and the \<^verbatim>\<open>name\<close> fields of
  \<^verbatim>\<open>Entity\<close> and \<^verbatim>\<open>Relation\<close> are \<open>e_name\<close> and \<open>r_name\<close>.
\<close>

record Relationship =
  person1 :: string
  person2 :: string
  relation :: string
  rel_value :: bool

record RelationshipQuery =
  relationships :: "Relationship list"
  query :: string

record RelationshipResult =
  result :: bool
  explanation :: string
  is_satisfiable :: bool

record Entity =
  e_name :: string
  z3_const :: "Z3Ref option"

record Relation =
  r_name :: string
  z3_func :: "FuncDeclRef option"

section \<open>Relationship pipeline: symbol declaration\<close>

definition create_entity :: "string \<Rightarrow> error + Entity" where
  "create_entity name = Success \<lparr>e_name = name, z3_const = Some (Const name StringSort)\<rparr>"

text \<open>
  A Python \<^verbatim>\<open>set\<close> of names is a duplicate-free list; \<open>set_add\<close> is \<^verbatim>\<open>set.add\<close>. The
  order in which the source iterates over the set is not specified; the dictionary that
  the loop builds does not depend on it.
\<close>

definition set_add :: "'a \<Rightarrow> 'a list \<Rightarrow> 'a list" where
  "set_add x xs = (if x \<in> set xs then xs else xs @ [x])"

fun collect_entity_names :: "Relationship list \<Rightarrow> string list \<Rightarrow> string list" where
  "collect_entity_names [] entity_names = entity_names"
| "collect_entity_names (rel # rels) entity_names =
     collect_entity_names rels (set_add (person2 rel) (set_add (person1 rel) entity_names))"

fun create_entities_loop ::
  "string list \<Rightarrow> (string \<rightharpoonup> Entity) \<Rightarrow> error + (string \<rightharpoonup> Entity)" where
  "create_entities_loop [] entities_dict = Success entities_dict"
| "create_entities_loop (name # names) entities_dict =
     (case create_entity name of
        Success entity \<Rightarrow> create_entities_loop names (entities_dict(name \<mapsto> entity))
      | Failure e \<Rightarrow> Failure e)"

definition create_entities :: "Relationship list \<Rightarrow> error + (string \<rightharpoonup> Entity)" where
  "create_entities rels = create_entities_loop (collect_entity_names rels []) Map.empty"

definition create_relation :: "string \<Rightarrow> error + Relation" where
  "create_relation name =
     Success \<lparr>r_name = name,
              z3_func = Some (Function name [StringSort, StringSort, BoolSort])\<rparr>"

fun collect_relation_names :: "Relationship list \<Rightarrow> string list \<Rightarrow> string list" where
  "collect_relation_names [] relation_names = relation_names"
| "collect_relation_names (rel # rels) relation_names =
     collect_relation_names rels (set_add (relation rel) relation_names)"

fun create_relations_loop ::
  "string list \<Rightarrow> (string \<rightharpoonup> Relation) \<Rightarrow> error + (string \<rightharpoonup> Relation)" where
  "create_relations_loop [] relations_dict = Success relations_dict"
| "create_relations_loop (name # names) relations_dict =
     (case create_relation name of
        Success relation' \<Rightarrow> create_relations_loop names (relations_dict(name \<mapsto> relation'))
      | Failure e \<Rightarrow> Failure e)"

definition create_relations :: "Relationship list \<Rightarrow> error + (string \<rightharpoonup> Relation)" where
  "create_relations rels = create_relations_loop (collect_relation_names rels []) Map.empty"

section \<open>Relationship pipeline: fact assertion\<close>

text \<open>
  The loop of \<^verbatim>\<open>add_relationship_assertions\<close>. A missing dictionary key raises
  \<^verbatim>\<open>KeyError\<close>, which the enclosing handler turns into a \<^verbatim>\<open>Failure\<close>; assertions already
  added to the solver stay added.
\<close>

fun assert_relationships ::
  "BoolRef Solver \<Rightarrow> Relationship list \<Rightarrow> (string \<rightharpoonup> Entity) \<Rightarrow> (string \<rightharpoonup> Relation)
     \<Rightarrow> BoolRef Solver \<times> (error + unit)" where
  "assert_relationships solver [] entities relations = (solver, Success ())"
| "assert_relationships solver (rel # rels) entities relations =
     (case relations (relation rel) of
        None \<Rightarrow> (solver, Failure (AssertionsError (KeyError (relation rel))))
      | Some relation' \<Rightarrow>
     (case entities (person1 rel) of
        None \<Rightarrow> (solver, Failure (AssertionsError (KeyError (person1 rel))))
      | Some entity1 \<Rightarrow>
     (case entities (person2 rel) of
        None \<Rightarrow> (solver, Failure (AssertionsError (KeyError (person2 rel))))
      | Some entity2 \<Rightarrow>
     (case z3_func relation' of
        None \<Rightarrow> (solver, Failure (RelationNoFunction (relation rel)))
      | Some f \<Rightarrow>
     (case z3_const entity1 of
        None \<Rightarrow> (solver, Failure (EntityNoConstant (person1 rel)))
      | Some e1_const \<Rightarrow>
     (case z3_const entity2 of
        None \<Rightarrow> (solver, Failure (EntityNoConstant (person2 rel)))
      | Some e2_const \<Rightarrow>
          assert_relationships
            (if rel_value rel then add (Z3App f e1_const e2_const) solver
             else add (Z3Not (Z3App f e1_const e2_const)) solver)
            rels entities relations))))))"

definition add_relationship_assertions ::
  "BoolRef Solver \<Rightarrow> Relationship list \<Rightarrow> (string \<rightharpoonup> Entity) \<Rightarrow> (string \<rightharpoonup> Relation)
     \<Rightarrow> BoolRef Solver \<times> (error + unit)" where
  "add_relationship_assertions solver rels entities relations =
     (case assert_relationships solver rels entities relations of
        (solver', Failure e) \<Rightarrow> (solver', Failure e)
      | (solver', Success _) \<Rightarrow>
          (case relations ''sibling'' of
             None \<Rightarrow> (solver', Success ())
           | Some sibling_relation \<Rightarrow>
               (let x = Const ''x'' StringSort; y = Const ''y'' StringSort in
                case z3_func sibling_relation of
                  None \<Rightarrow> (solver', Failure SiblingNoFunction)
                | Some f \<Rightarrow>
                    (add (Z3ForAll [x, y] (Z3Implies (Z3App f x y) (Z3App f y x))) solver',
                     Success ()))))"

section \<open>Relationship pipeline: query parsing\<close>

definition parse_query ::
  "string \<Rightarrow> (string \<rightharpoonup> Entity) \<Rightarrow> (string \<rightharpoonup> Relation) \<Rightarrow> error + BoolRef" where
  "parse_query q entities relations =
     (let parts = split_chr CHR ''('' q in
      if length parts \<noteq> 2 \<or> CHR '')'' \<notin> set (parts ! 1) then Failure (InvalidQueryFormat q)
      else
        let relation_name = strip (parts ! 0);
            entities_part = strip (hd (split_chr CHR '')'' (parts ! 1)));
            entity_names = map strip (split_chr CHR '','' entities_part)
        in
        if length entity_names \<noteq> 2 then Failure (NotTwoEntities q)
        else if relations relation_name = None then Failure (UnknownRelation relation_name)
        else if entities (entity_names ! 0) = None then Failure (UnknownEntity (entity_names ! 0))
        else if entities (entity_names ! 1) = None then Failure (UnknownEntity (entity_names ! 1))
        else
          let relation' = the (relations relation_name);
              entity1 = the (entities (entity_names ! 0));
              entity2 = the (entities (entity_names ! 1))
          in
          (case z3_func relation' of
             None \<Rightarrow> Failure (RelationNoFunction relation_name)
           | Some f \<Rightarrow>
          (case z3_const entity1 of
             None \<Rightarrow> Failure (EntityNoConstant (entity_names ! 0))
           | Some e1_const \<Rightarrow>
          (case z3_const entity2 of
             None \<Rightarrow> Failure (EntityNoConstant (entity_names ! 1))
           | Some e2_const \<Rightarrow> Success (Z3App f e1_const e2_const)))))"

section \<open>Relationship pipeline: entailment determination\<close>

definition evaluate_query ::
  "BoolRef check_oracle \<Rightarrow> BoolRef Solver \<Rightarrow> BoolRef
     \<Rightarrow> BoolRef Solver \<times> (error + bool \<times> string \<times> bool)" where
  "evaluate_query chk solver query_expr =
     (case check chk (add (Z3Not query_expr) (push solver)) of
        (s1, Inl e) \<Rightarrow> (s1, Failure (EvaluateError e))
      | (s1, Inr neg_result) \<Rightarrow>
     (case pop s1 of
        Inl e \<Rightarrow> (s1, Failure (EvaluateError e))
      | Inr s2 \<Rightarrow>
          if neg_result = unsat
          then (s2, Success (True, ''The relationship is confirmed by the given facts.'', True))
          else
     (case check chk (add query_expr (push s2)) of
        (s3, Inl e) \<Rightarrow> (s3, Failure (EvaluateError e))
      | (s3, Inr pos_result) \<Rightarrow>
     (case pop s3 of
        Inl e \<Rightarrow> (s3, Failure (EvaluateError e))
      | Inr s4 \<Rightarrow>
          if pos_result = unsat
          then (s4, Success (False,
                  ''The relationship is contradicted by the given facts.'', True))
          else (s4, Success (False,
                  ''The relationship is possible but not confirmed by the given facts.'',
                  True))))))"

definition analyze_relationships ::
  "BoolRef check_oracle \<Rightarrow> RelationshipQuery \<Rightarrow> error + RelationshipResult" where
  "analyze_relationships chk q =
     (case create_entities (relationships q) of
        Failure e \<Rightarrow> Failure e
      | Success entities \<Rightarrow>
     (case create_relations (relationships q) of
        Failure e \<Rightarrow> Failure e
      | Success relations \<Rightarrow>
     (case add_relationship_assertions new_Solver (relationships q) entities relations of
        (solver, Failure e) \<Rightarrow> Failure e
      | (solver, Success _) \<Rightarrow>
     (case parse_query (query q) entities relations of
        Failure e \<Rightarrow> Failure e
      | Success query_expr \<Rightarrow>
     (case check chk solver of
        (solver1, Inl e) \<Rightarrow> Failure (AnalyzeError e)
      | (solver1, Inr base_result) \<Rightarrow>
          if base_result = unsat
          then Success \<lparr>result = False,
                        explanation = ''The relationships are contradictory.'',
                        is_satisfiable = False\<rparr>
          else
     (case evaluate_query chk solver1 query_expr of
        (solver2, Failure e) \<Rightarrow> Failure e
      | (solver2, Success (res, expl, is_sat)) \<Rightarrow>
          Success \<lparr>result = res, explanation = expl, is_satisfiable = is_sat\<rparr>))))))"

section \<open>Constraint pipeline: data model\<close>

text \<open>
  The fields \<^verbatim>\<open>name\<close> and \<^verbatim>\<open>type\<close> of \<^verbatim>\<open>Variable\<close> are \<open>var_name\<close> and \<open>var_type\<close>; the
  fields \<^verbatim>\<open>values\<close>, \<^verbatim>\<open>is_satisfiable\<close> and \<^verbatim>\<open>status\<close> of \<^verbatim>\<open>Solution\<close> carry the prefix
  \<open>sol_\<close>. The type parameter \<open>'f\<close> is the host's floating-point type.
\<close>

datatype VariableType = INTEGER | REAL | BOOLEAN | STRING

record Variable =
  var_name :: string
  var_type :: VariableType

record Constraint =
  expression :: string
  c_description :: string

record Problem =
  variables :: "Variable list"
  constraints :: "Constraint list"
  p_description :: string

datatype 'f Z3Value = VBool bool | VInt int | VFloat 'f | VStr string

record 'f Solution =
  sol_values :: "string \<rightharpoonup> 'f Z3Value"
  sol_is_satisfiable :: bool
  sol_status :: string

text \<open>
  A value of a backend model is seen through \<^verbatim>\<open>str(z3_value)\<close> and \<^verbatim>\<open>is_true(z3_value)\<close>;
  \<^verbatim>\<open>model[z3_var]\<close> is \<^verbatim>\<open>None\<close> for a symbol the model does not interpret.
\<close>

record ModelValue =
  str_of :: string
  is_true :: bool

type_synonym ModelRef = "Z3Ref \<Rightarrow> ModelValue option"

text \<open>
  The external calls of the constraint pipeline are parameters:
  \<^item> \<open>'fm evaluator\<close>: Python's \<^verbatim>\<open>eval(expression, {"__builtins__": {}}, local_dict)\<close>, which
    returns the evaluated object or raises;
  \<^item> \<open>'fm Z3\<close>: of a fresh \<^verbatim>\<open>Solver\<close>, the exception (if any) that \<^verbatim>\<open>add\<close> raises on an
    object, and the outcomes of \<^verbatim>\<open>check()\<close> and \<^verbatim>\<open>model()\<close> on the asserted objects;
  \<^item> \<open>'f Host\<close>: the builtins \<^verbatim>\<open>int(str)\<close>, \<^verbatim>\<open>float(int)\<close>, \<^verbatim>\<open>float(str)\<close> and float
    division, each \<open>None\<close> where Python raises.
\<close>

datatype env_value = Var Z3Ref | Combinator string | PyBool bool

type_synonym 'fm evaluator = "string \<Rightarrow> (string \<times> env_value) list \<Rightarrow> exn + 'fm"

record 'fm Z3 =
  add_error :: "'fm \<Rightarrow> exn option"
  check_sat :: "'fm list \<Rightarrow> exn + CheckSatResult"
  get_model :: "'fm list \<Rightarrow> exn + ModelRef"

record 'f Host =
  py_int :: "string \<Rightarrow> int option"
  py_float_of_int :: "int \<Rightarrow> 'f option"
  py_float_of_str :: "string \<Rightarrow> 'f option"
  py_truediv :: "'f \<Rightarrow> 'f \<Rightarrow> 'f option"

section \<open>Constraint pipeline: symbol declaration and constraint compilation\<close>

definition create_variable :: "Variable \<Rightarrow> error + string \<times> Z3Ref" where
  "create_variable variable =
     (let name = var_name variable in
      case var_type variable of
        INTEGER \<Rightarrow> Success (name, Const name IntSort)
      | REAL \<Rightarrow> Success (name, Const name RealSort)
      | BOOLEAN \<Rightarrow> Success (name, Const name BoolSort)
      | STRING \<Rightarrow> Success (name, Const name StringSort))"

text \<open>
  A dictionary that is iterated over is an association list in insertion order;
  \<^verbatim>\<open>d[k] = v\<close> is \<open>AList.update k v d\<close>.
\<close>

fun create_variables_loop ::
  "Variable list \<Rightarrow> (string \<times> Z3Ref) list \<Rightarrow> error + (string \<times> Z3Ref) list" where
  "create_variables_loop [] result_dict = Success result_dict"
| "create_variables_loop (var # vars) result_dict =
     (case create_variable var of
        Success (name, z3_var) \<Rightarrow> create_variables_loop vars (AList.update name z3_var result_dict)
      | Failure e \<Rightarrow> Failure e)"

definition create_variables :: "Variable list \<Rightarrow> error + (string \<times> Z3Ref) list" where
  "create_variables vars = create_variables_loop vars []"

definition z3_combinators :: "(string \<times> env_value) list" where
  "z3_combinators =
     [(''And'', Combinator ''And''), (''Or'', Combinator ''Or''), (''Not'', Combinator ''Not''),
      (''Implies'', Combinator ''Implies''), (''ForAll'', Combinator ''ForAll''),
      (''Exists'', Combinator ''Exists''), (''If'', Combinator ''If''),
      (''Distinct'', Combinator ''Distinct''), (''true'', PyBool True), (''false'', PyBool False)]"

definition local_dict :: "(string \<times> Z3Ref) list \<Rightarrow> (string \<times> env_value) list" where
  "local_dict vars =
     fold (\<lambda>(k, v). AList.update k v) z3_combinators (map (\<lambda>(n, r). (n, Var r)) vars)"

definition parse_constraint ::
  "'fm evaluator \<Rightarrow> Constraint \<Rightarrow> (string \<times> Z3Ref) list \<Rightarrow> error + 'fm" where
  "parse_constraint ev constraint vars =
     (case ev (expression constraint) (local_dict vars) of
        Inr z3_constraint \<Rightarrow> Success z3_constraint
      | Inl e \<Rightarrow> Failure (ConstraintParseError (expression constraint) e))"

fun create_constraints_loop ::
  "'fm evaluator \<Rightarrow> Constraint list \<Rightarrow> (string \<times> Z3Ref) list \<Rightarrow> 'fm list
     \<Rightarrow> error + 'fm list" where
  "create_constraints_loop ev [] vars z3_constraints = Success z3_constraints"
| "create_constraints_loop ev (constraint # cs) vars z3_constraints =
     (case parse_constraint ev constraint vars of
        Success v \<Rightarrow> create_constraints_loop ev cs vars (z3_constraints @ [v])
      | Failure e \<Rightarrow> Failure e)"

definition create_constraints ::
  "'fm evaluator \<Rightarrow> Constraint list \<Rightarrow> (string \<times> Z3Ref) list \<Rightarrow> error + 'fm list" where
  "create_constraints ev cs vars = create_constraints_loop ev cs vars []"

section \<open>Constraint pipeline: solving and value extraction\<close>

fun add_each :: "('fm \<Rightarrow> exn option) \<Rightarrow> 'fm list \<Rightarrow> 'fm Solver \<Rightarrow> exn + 'fm Solver" where
  "add_each err [] solver = Inr solver"
| "add_each err (c # cs) solver =
     (case err c of Some e \<Rightarrow> Inl e | None \<Rightarrow> add_each err cs (add c solver))"

definition solve ::
  "'fm Z3 \<Rightarrow> (string \<times> Z3Ref) list \<Rightarrow> 'fm list
     \<Rightarrow> error + CheckSatResult \<times> ModelRef option" where
  "solve z3 vars cs =
     (case add_each (add_error z3) cs new_Solver of
        Inl e \<Rightarrow> Failure (SolveError e)
      | Inr solver \<Rightarrow>
     (case check (check_sat z3) solver of
        (solver', Inl e) \<Rightarrow> Failure (SolveError e)
      | (solver', Inr res) \<Rightarrow>
          if res = sat
          then (case get_model z3 (assertions solver') of
                  Inl e \<Rightarrow> Failure (SolveError e)
                | Inr model \<Rightarrow> Success (res, Some model))
          else Success (res, None)))"

definition is_bool :: "Z3Ref \<Rightarrow> bool" where
  "is_bool r = (case r of Const _ srt \<Rightarrow> srt = BoolSort)"

definition is_int :: "Z3Ref \<Rightarrow> bool" where
  "is_int r = (case r of Const _ srt \<Rightarrow> srt = IntSort)"

definition is_real :: "Z3Ref \<Rightarrow> bool" where
  "is_real r = (case r of Const _ srt \<Rightarrow> srt = RealSort)"

text \<open>
  \<^verbatim>\<open>get_z3_value\<close> returns \<^verbatim>\<open>Maybe\<close>: \<open>None\<close> is \<^verbatim>\<open>Nothing\<close>, also for every exception raised
  inside its \<^verbatim>\<open>try\<close> block (a failed \<^verbatim>\<open>int\<close> or \<^verbatim>\<open>float\<close>, or a tuple unpacking of a split
  that has not exactly two parts).
\<close>

definition get_z3_value :: "'f Host \<Rightarrow> ModelRef \<Rightarrow> Z3Ref \<Rightarrow> 'f Z3Value option" where
  "get_z3_value host model z3_var =
     (case model z3_var of
        None \<Rightarrow> None
      | Some z3_value \<Rightarrow>
          (let str_value = str_of z3_value in
           if is_bool z3_var then Some (VBool (is_true z3_value))
           else if is_int z3_var then map_option VInt (py_int host str_value)
           else if is_real z3_var then
             (if CHR ''/'' \<in> set str_value then
                (case split_chr CHR ''/'' str_value of
                   [num_str, den_str] \<Rightarrow>
                     (case py_int host num_str of
                        None \<Rightarrow> None
                      | Some num \<Rightarrow>
                     (case py_float_of_int host num of
                        None \<Rightarrow> None
                      | Some fnum \<Rightarrow>
                     (case py_int host den_str of
                        None \<Rightarrow> None
                      | Some den \<Rightarrow>
                     (case py_float_of_int host den of
                        None \<Rightarrow> None
                      | Some fden \<Rightarrow> map_option VFloat (py_truediv host fnum fden)))))
                 | _ \<Rightarrow> None)
              else map_option VFloat (py_float_of_str host str_value))
           else Some (VStr str_value)))"

text \<open>
  \<^verbatim>\<open>str(result)\<close> of a \<^verbatim>\<open>CheckSatResult\<close> is the way the Z3 binding prints it.
\<close>

definition str_CheckSatResult :: "CheckSatResult \<Rightarrow> string" where
  "str_CheckSatResult r = (case r of sat \<Rightarrow> ''sat'' | unsat \<Rightarrow> ''unsat'' | unknown \<Rightarrow> ''unknown'')"

fun extract_values ::
  "'f Host \<Rightarrow> ModelRef \<Rightarrow> (string \<times> Z3Ref) list \<Rightarrow> (string \<rightharpoonup> 'f Z3Value)
     \<Rightarrow> (string \<rightharpoonup> 'f Z3Value)" where
  "extract_values host model [] vals = vals"
| "extract_values host model ((name, z3_var) # items) vals =
     extract_values host model items
       (case get_z3_value host model z3_var of
          None \<Rightarrow> vals
        | Some v \<Rightarrow> vals(name \<mapsto> v))"

definition extract_solution ::
  "'f Host \<Rightarrow> CheckSatResult \<Rightarrow> ModelRef option \<Rightarrow> (string \<times> Z3Ref) list
     \<Rightarrow> error + 'f Solution" where
  "extract_solution host res model vars =
     (let status = str_CheckSatResult res;
          is_sat = (res = sat);
          vals = (case (is_sat, model) of
                    (True, Some m) \<Rightarrow> extract_values host m vars Map.empty
                  | _ \<Rightarrow> Map.empty)
      in Success \<lparr>sol_values = vals, sol_is_satisfiable = is_sat, sol_status = status\<rparr>)"

definition solve_problem ::
  "'fm Z3 \<Rightarrow> 'f Host \<Rightarrow> 'fm evaluator \<Rightarrow> Problem \<Rightarrow> error + 'f Solution" where
  "solve_problem z3 host ev problem =
     (case create_variables (variables problem) of
        Failure e \<Rightarrow> Failure e
      | Success vars \<Rightarrow>
     (case create_constraints ev (constraints problem) vars of
        Failure e \<Rightarrow> Failure e
      | Success z3_constraints \<Rightarrow>
     (case solve z3 vars z3_constraints of
        Failure e \<Rightarrow> Failure e
      | Success result_tuple \<Rightarrow>
          extract_solution host (fst result_tuple) (snd result_tuple) vars)))"

section \<open>Notions used to state the properties\<close>

text \<open>
  The symbol tables that \<^verbatim>\<open>create_entities\<close> and \<^verbatim>\<open>create_relations\<close> return for a fact list
  (lemmas \<open>create_entities_eq\<close> and \<open>create_relations_eq\<close> below), the formula that the
  assertion loop adds for one fact, and the symmetry axiom.
\<close>

definition declared_entities :: "Relationship list \<Rightarrow> (string \<rightharpoonup> Entity)" where
  "declared_entities rels =
     (\<lambda>n. if n \<in> person1 ` set rels \<union> person2 ` set rels
          then Some \<lparr>e_name = n, z3_const = Some (Const n StringSort)\<rparr> else None)"

definition declared_relations :: "Relationship list \<Rightarrow> (string \<rightharpoonup> Relation)" where
  "declared_relations rels =
     (\<lambda>n. if n \<in> relation ` set rels
          then Some \<lparr>r_name = n,
                 z3_func = Some (Function n [StringSort, StringSort, BoolSort])\<rparr>
          else None)"

definition atom :: "string \<Rightarrow> string \<Rightarrow> string \<Rightarrow> BoolRef" where
  "atom r a b =
     Z3App (Function r [StringSort, StringSort, BoolSort]) (Const a StringSort) (Const b StringSort)"

definition fact_formula :: "Relationship \<Rightarrow> BoolRef" where
  "fact_formula rel =
     (if rel_value rel then atom (relation rel) (person1 rel) (person2 rel)
      else Z3Not (atom (relation rel) (person1 rel) (person2 rel)))"

definition symmetry_axiom :: "string \<Rightarrow> BoolRef" where
  "symmetry_axiom r =
     Z3ForAll [Const ''x'' StringSort, Const ''y'' StringSort]
       (Z3Implies (atom r ''x'' ''y'') (atom r ''y'' ''x''))"

definition fact_base :: "Relationship list \<Rightarrow> BoolRef list" where
  "fact_base rels =
     map fact_formula rels @
     (if ''sibling'' \<in> relation ` set rels then [symmetry_axiom ''sibling''] else [])"

definition add_all :: "'fm list \<Rightarrow> 'fm Solver \<Rightarrow> 'fm Solver" where
  "add_all fs s = s\<lparr>assertions := assertions s @ fs, calls := calls s @ map Add fs\<rparr>"

text \<open>
  The verdicts of \<^verbatim>\<open>analyze_relationships\<close>.
\<close>

definition contradictory :: RelationshipResult where
  "contradictory =
     \<lparr>result = False, explanation = ''The relationships are contradictory.'',
      is_satisfiable = False\<rparr>"

definition confirmed :: RelationshipResult where
  "confirmed =
     \<lparr>result = True, explanation = ''The relationship is confirmed by the given facts.'',
      is_satisfiable = True\<rparr>"

definition contradicted :: RelationshipResult where
  "contradicted =
     \<lparr>result = False, explanation = ''The relationship is contradicted by the given facts.'',
      is_satisfiable = True\<rparr>"

definition possible :: RelationshipResult where
  "possible =
     \<lparr>result = False,
      explanation = ''The relationship is possible but not confirmed by the given facts.'',
      is_satisfiable = True\<rparr>"

text \<open>
  What the backend decides: the formulas are read as first-order formulas over a domain of
  strings, with an interpretation \<open>cv\<close> of the constants and \<open>fv\<close> of the binary
  predicates; a quantifier ranges over all values of the constants it binds. A backend
  is sound when its definite answers agree with this reading.
\<close>

fun holds ::
  "(Z3Ref \<Rightarrow> string) \<Rightarrow> (FuncDeclRef \<Rightarrow> string \<Rightarrow> string \<Rightarrow> bool) \<Rightarrow> BoolRef \<Rightarrow> bool" where
  "holds cv fv (Z3App f a b) = fv f (cv a) (cv b)"
| "holds cv fv (Z3Not p) = (\<not> holds cv fv p)"
| "holds cv fv (Z3Implies p q) = (holds cv fv p \<longrightarrow> holds cv fv q)"
| "holds cv fv (Z3ForAll xs p) =
     (\<forall>cv'. (\<forall>c. c \<notin> set xs \<longrightarrow> cv' c = cv c) \<longrightarrow> holds cv' fv p)"

definition satisfiable :: "BoolRef list \<Rightarrow> bool" where
  "satisfiable fs \<longleftrightarrow> (\<exists>cv fv. \<forall>f \<in> set fs. holds cv fv f)"

definition sound_backend :: "BoolRef check_oracle \<Rightarrow> bool" where
  "sound_backend chk \<longleftrightarrow>
     (\<forall>fs. (chk fs = Inr sat \<longrightarrow> satisfiable fs) \<and> (chk fs = Inr unsat \<longrightarrow> \<not> satisfiable fs))"

definition ideal_backend :: "BoolRef check_oracle" where
  "ideal_backend fs = Inr (if satisfiable fs then sat else unsat)"

definition unknown_as_sat :: "'fm check_oracle \<Rightarrow> 'fm check_oracle" where
  "unknown_as_sat chk fs = (case chk fs of Inr unknown \<Rightarrow> Inr sat | r \<Rightarrow> r)"

text \<open>
  The outcome of the three checks on a fact base \<open>F\<close> and a query formula \<open>Q\<close>, in the order
  in which \<^verbatim>\<open>analyze_relationships\<close> and \<^verbatim>\<open>evaluate_query\<close> make them (lemma
  \<open>analyze_relationships_unfold\<close> below).
\<close>

definition verdict :: "BoolRef check_oracle \<Rightarrow> BoolRef list \<Rightarrow> BoolRef \<Rightarrow> error + RelationshipResult" where
  "verdict chk F Q =
     (case chk F of
        Inl e \<Rightarrow> Failure (AnalyzeError e)
      | Inr base_result \<Rightarrow>
          if base_result = unsat then Success contradictory
          else
            (case chk (F @ [Z3Not Q]) of
               Inl e \<Rightarrow> Failure (EvaluateError e)
             | Inr neg_result \<Rightarrow>
                 if neg_result = unsat then Success confirmed
                 else
                   (case chk (F @ [Q]) of
                      Inl e \<Rightarrow> Failure (EvaluateError e)
                    | Inr pos_result \<Rightarrow>
                        if pos_result = unsat then Success contradicted else Success possible)))"

text \<open>
  A concrete query: the single fact \<open>sibling(Alice, Bob)\<close> and the question
  \<open>sibling(Bob, Alice)\<close>.
\<close>

definition rels0 :: "Relationship list" where
  "rels0 = [\<lparr>person1 = ''Alice'', person2 = ''Bob'', relation = ''sibling'', rel_value = True\<rparr>]"

definition query0 :: RelationshipQuery where
  "query0 = \<lparr>relationships = rels0, query = ''sibling(Bob, Alice)''\<rparr>"

text \<open>
  The sort of the symbol that \<^verbatim>\<open>create_variable\<close> declares for a variable type, and concrete
  inputs of the constraint pipeline: a problem with the integers \<open>x\<close> and \<open>z\<close> and the real
  \<open>y\<close>, an evaluator that rejects the expression \<open>x >\<close>, a backend with a fixed answer and
  model, a model that binds \<open>x\<close>, binds \<open>z\<close> to a value whose string form is not an integer
  literal, binds an auxiliary symbol and does not bind \<open>y\<close>, and host conversions.
\<close>

definition sort_of :: "VariableType \<Rightarrow> Z3Sort" where
  "sort_of t = (case t of INTEGER \<Rightarrow> IntSort | REAL \<Rightarrow> RealSort | BOOLEAN \<Rightarrow> BoolSort
                | STRING \<Rightarrow> StringSort)"

definition problem0 :: Problem where
  "problem0 =
     \<lparr>variables = [\<lparr>var_name = ''x'', var_type = INTEGER\<rparr>, \<lparr>var_name = ''y'', var_type = REAL\<rparr>,
                   \<lparr>var_name = ''z'', var_type = INTEGER\<rparr>],
      constraints = [\<lparr>expression = ''x > 0'', c_description = ''''\<rparr>],
      p_description = ''''\<rparr>"

definition ev0 :: "string evaluator" where
  "ev0 expr env = (if expr = ''x >'' then Inl (Raised ''invalid syntax'') else Inr expr)"

definition fixed_backend :: "CheckSatResult \<Rightarrow> ModelRef \<Rightarrow> string Z3" where
  "fixed_backend r m =
     \<lparr>add_error = (\<lambda>c. None), check_sat = (\<lambda>cs. Inr r), get_model = (\<lambda>cs. Inr m)\<rparr>"

definition model0 :: ModelRef where
  "model0 r =
     (if r = Const ''x'' IntSort then Some \<lparr>str_of = ''5'', is_true = False\<rparr>
      else if r = Const ''z'' IntSort then Some \<lparr>str_of = ''(root-obj 1)'', is_true = False\<rparr>
      else if r = Const ''aux'' IntSort then Some \<lparr>str_of = ''7'', is_true = False\<rparr>
      else None)"

definition host0 :: "unit Host" where
  "host0 =
     \<lparr>py_int = (\<lambda>s. if s = ''5'' then Some 5 else if s = ''7'' then Some 7 else None),
      py_float_of_int = (\<lambda>i. None), py_float_of_str = (\<lambda>s. None),
      py_truediv = (\<lambda>a b. None)\<rparr>"

definition vars0 :: "(string \<times> Z3Ref) list" where
  "vars0 = [(''x'', Const ''x'' IntSort), (''y'', Const ''y'' RealSort),
            (''z'', Const ''z'' IntSort)]"

section \<open>Relationship pipeline: what the functions compute\<close>


lemma set_collect_entity_names:
  "set (collect_entity_names rels acc) = set acc \<union> person1 ` set rels \<union> person2 ` set rels"
  by (induction rels arbitrary: acc) (auto simp: set_add_def)

lemma set_collect_relation_names:
  "set (collect_relation_names rels acc) = set acc \<union> relation ` set rels"
  by (induction rels arbitrary: acc) (auto simp: set_add_def)

lemma create_entities_loop_eq:
  "create_entities_loop names d =
     Success (\<lambda>n. if n \<in> set names
                   then Some \<lparr>e_name = n, z3_const = Some (Const n StringSort)\<rparr> else d n)"
  by (induction names arbitrary: d) (auto simp: create_entity_def fun_eq_iff)

lemma create_relations_loop_eq:
  "create_relations_loop names d =
     Success (\<lambda>n. if n \<in> set names
                   then Some \<lparr>r_name = n,
                          z3_func = Some (Function n [StringSort, StringSort, BoolSort])\<rparr>
                   else d n)"
  by (induction names arbitrary: d) (auto simp: create_relation_def fun_eq_iff)

lemma create_entities_eq: "create_entities rels = Success (declared_entities rels)"
  by (simp add: create_entities_def create_entities_loop_eq set_collect_entity_names
      declared_entities_def)

lemma create_relations_eq: "create_relations rels = Success (declared_relations rels)"
  by (simp add: create_relations_def create_relations_loop_eq set_collect_relation_names
      declared_relations_def)

lemma add_all_Nil: "add_all [] s = s"
  by (simp add: add_all_def)

lemma add_all_Cons: "add_all (f # fs) s = add_all fs (add f s)"
  by (simp add: add_all_def add_def)

lemma assert_relationships_declared:
  assumes "set rels \<subseteq> set all"
  shows "assert_relationships s rels (declared_entities all) (declared_relations all) =
           (add_all (map fact_formula rels) s, Success ())"
  using assms
proof (induction rels arbitrary: s)
  case Nil
  then show ?case by (simp add: add_all_Nil)
next
  case (Cons rel rels)
  from Cons.prems have mem: "rel \<in> set all" and sub: "set rels \<subseteq> set all" by auto
  from mem have R: "declared_relations all (relation rel) =
      Some \<lparr>r_name = relation rel,
            z3_func = Some (Function (relation rel) [StringSort, StringSort, BoolSort])\<rparr>"
    by (simp add: declared_relations_def)
  from mem have E1: "declared_entities all (person1 rel) =
      Some \<lparr>e_name = person1 rel, z3_const = Some (Const (person1 rel) StringSort)\<rparr>"
    by (simp add: declared_entities_def)
  from mem have E2: "declared_entities all (person2 rel) =
      Some \<lparr>e_name = person2 rel, z3_const = Some (Const (person2 rel) StringSort)\<rparr>"
    by (simp add: declared_entities_def)
  show ?case
    by (simp add: R E1 E2 Cons.IH [OF sub] add_all_Cons fact_formula_def atom_def)
qed

lemma add_relationship_assertions_declared:
  "add_relationship_assertions s rels (declared_entities rels) (declared_relations rels) =
     (add_all (fact_base rels) s, Success ())"
proof (cases "''sibling'' \<in> relation ` set rels")
  case True
  then have "declared_relations rels ''sibling'' =
      Some \<lparr>r_name = ''sibling'',
            z3_func = Some (Function ''sibling'' [StringSort, StringSort, BoolSort])\<rparr>"
    by (simp add: declared_relations_def)
  with True show ?thesis
    by (simp add: add_relationship_assertions_def assert_relationships_declared fact_base_def
        symmetry_axiom_def atom_def add_all_def add_def Let_def)
next
  case False
  then have "declared_relations rels ''sibling'' = None"
    by (simp add: declared_relations_def)
  with False show ?thesis
    by (simp add: add_relationship_assertions_def assert_relationships_declared fact_base_def)
qed

lemma evaluate_query_eq:
  "evaluate_query chk s Q =
     (case chk (assertions s @ [Z3Not Q]) of
        Inl e \<Rightarrow>
          (s\<lparr>assertions := assertions s @ [Z3Not Q],
             scopes := length (assertions s) # scopes s,
             calls := calls s @ [Push, Add (Z3Not Q), Check]\<rparr>, Failure (EvaluateError e))
      | Inr neg_result \<Rightarrow>
          if neg_result = unsat
          then (s\<lparr>calls := calls s @ [Push, Add (Z3Not Q), Check, Pop]\<rparr>,
                Success (True, ''The relationship is confirmed by the given facts.'', True))
          else
            (case chk (assertions s @ [Q]) of
               Inl e \<Rightarrow>
                 (s\<lparr>assertions := assertions s @ [Q],
                    scopes := length (assertions s) # scopes s,
                    calls := calls s @ [Push, Add (Z3Not Q), Check, Pop, Push, Add Q, Check]\<rparr>,
                  Failure (EvaluateError e))
             | Inr pos_result \<Rightarrow>
                 (s\<lparr>calls := calls s @ [Push, Add (Z3Not Q), Check, Pop, Push, Add Q, Check, Pop]\<rparr>,
                  Success (False,
                    if pos_result = unsat
                    then ''The relationship is contradicted by the given facts.''
                    else ''The relationship is possible but not confirmed by the given facts.'',
                    True))))"
  by (simp add: evaluate_query_def check_def add_def push_def pop_def split: sum.splits)

lemma analyze_relationships_unfold:
  "analyze_relationships chk q =
     (case parse_query (query q) (declared_entities (relationships q))
             (declared_relations (relationships q)) of
        Failure e \<Rightarrow> Failure e
      | Success Q \<Rightarrow> verdict chk (fact_base (relationships q)) Q)"
  by (simp add: analyze_relationships_def create_entities_eq create_relations_eq
      add_relationship_assertions_declared check_def evaluate_query_eq verdict_def
      add_all_def new_Solver_def contradictory_def confirmed_def contradicted_def possible_def
      split: sum.splits)

lemma parse_query0:
  "parse_query ''sibling(Bob, Alice)'' (declared_entities rels0) (declared_relations rels0)
     = Success (atom ''sibling'' ''Bob'' ''Alice'')"
  by (simp add: parse_query_def strip_def is_space_def declared_entities_def
      declared_relations_def rels0_def atom_def)

lemma fact_base0:
  "fact_base rels0 = [atom ''sibling'' ''Alice'' ''Bob'', symmetry_axiom ''sibling'']"
  by (simp add: fact_base_def rels0_def fact_formula_def)

lemma analyze_query0:
  "analyze_relationships chk query0 =
     verdict chk [atom ''sibling'' ''Alice'' ''Bob'', symmetry_axiom ''sibling'']
       (atom ''sibling'' ''Bob'' ''Alice'')"
  by (simp add: analyze_relationships_unfold query0_def parse_query0 fact_base0)

lemma sibling_base_satisfiable: "satisfiable [atom r X Y, symmetry_axiom r]"
  unfolding satisfiable_def
  by (rule exI [of _ "\<lambda>_. []"], rule exI [of _ "\<lambda>_ _ _. True"])
    (simp add: atom_def symmetry_axiom_def)

lemma sibling_converse_entailed:
  "\<not> satisfiable [atom r X Y, symmetry_axiom r, Z3Not (atom r Y X)]"
proof
  assume "satisfiable [atom r X Y, symmetry_axiom r, Z3Not (atom r Y X)]"
  then obtain cv fv where
    fact: "holds cv fv (atom r X Y)" and
    ax: "holds cv fv (symmetry_axiom r)" and
    neg: "holds cv fv (Z3Not (atom r Y X))"
    by (auto simp: satisfiable_def)
  let ?f = "Function r [StringSort, StringSort, BoolSort]"
  let ?x = "Const ''x'' StringSort" and ?y = "Const ''y'' StringSort"
  let ?cv' = "cv(?x := cv (Const X StringSort), ?y := cv (Const Y StringSort))"
  from ax have inst: "\<And>cv'. (\<forall>c. c \<noteq> ?x \<and> c \<noteq> ?y \<longrightarrow> cv' c = cv c) \<Longrightarrow>
      fv ?f (cv' ?x) (cv' ?y) \<Longrightarrow> fv ?f (cv' ?y) (cv' ?x)"
    by (simp add: symmetry_axiom_def atom_def)
  from fact have "fv ?f (?cv' ?x) (?cv' ?y)"
    by (simp add: atom_def)
  with inst [of ?cv'] have "fv ?f (?cv' ?y) (?cv' ?x)"
    by simp
  then have "fv ?f (cv (Const Y StringSort)) (cv (Const X StringSort))"
    by simp
  with neg show False
    by (simp add: atom_def)
qed

lemma sound_ideal_backend: "sound_backend ideal_backend"
  by (simp add: sound_backend_def ideal_backend_def)

lemma verdict_unknown_as_sat: "verdict chk F Q = verdict (unknown_as_sat chk) F Q"
  by (auto simp: verdict_def unknown_as_sat_def split: sum.splits CheckSatResult.splits)

section \<open>Query strings\<close>





lemma not_space_paren [simp]:
  "\<not> is_space CHR ''(''" "\<not> is_space CHR '')''" "\<not> is_space CHR '',''"
  by (simp_all add: is_space_def)



lemma lstrip_append: "\<not> P x \<Longrightarrow> dropWhile P (a @ x # r) = dropWhile P a @ x # r"
  by (induction a) auto

lemma rstrip_append:
  "\<not> P x \<Longrightarrow> rev (dropWhile P (rev (a @ x # r))) = a @ x # rev (dropWhile P (rev r))"
  by (simp add: lstrip_append)
















section \<open>Constraint pipeline: what the functions compute\<close>

lemma create_variable_eq:
  "create_variable var = Success (var_name var, Const (var_name var) (sort_of (var_type var)))"
  by (simp add: create_variable_def sort_of_def Let_def split: VariableType.splits)

lemma create_variables_loop_keys:
  "create_variables_loop vars d = Success tbl \<Longrightarrow>
     fst ` set tbl = fst ` set d \<union> var_name ` set vars"
proof (induction vars arbitrary: d)
  case Nil
  then show ?case by simp
next
  case (Cons var vars)
  from Cons.prems have "create_variables_loop vars
      (AList.update (var_name var) (Const (var_name var) (sort_of (var_type var))) d) = Success tbl"
    by (simp add: create_variable_eq)
  from Cons.IH [OF this] show ?case
    using dom_update [of "var_name var" _ d] by auto
qed

lemma create_variables_loop_distinct:
  "create_variables_loop vars d = Success tbl \<Longrightarrow> distinct (map fst d) \<Longrightarrow>
     distinct (map fst tbl)"
proof (induction vars arbitrary: d)
  case Nil
  then show ?case by simp
next
  case (Cons var vars)
  from Cons.prems(1) have "create_variables_loop vars
      (AList.update (var_name var) (Const (var_name var) (sort_of (var_type var))) d) = Success tbl"
    by (simp add: create_variable_eq)
  moreover from Cons.prems(2) have "distinct (map fst
      (AList.update (var_name var) (Const (var_name var) (sort_of (var_type var))) d))"
    by (simp add: distinct_update)
  ultimately show ?case by (rule Cons.IH)
qed

lemma create_variables_total: "\<exists>tbl. create_variables vars = Success tbl"
proof -
  have "\<exists>tbl. create_variables_loop vars d = Success tbl" for d
    by (induction vars arbitrary: d) (simp_all add: create_variable_eq)
  then show ?thesis by (simp add: create_variables_def)
qed

lemma create_variables_keys:
  "create_variables vars = Success tbl \<Longrightarrow> fst ` set tbl = var_name ` set vars"
  using create_variables_loop_keys [of vars "[]" tbl] by (simp add: create_variables_def)

lemma create_variables_distinct:
  "create_variables vars = Success tbl \<Longrightarrow> distinct (map fst tbl)"
  using create_variables_loop_distinct [of vars "[]" tbl] by (simp add: create_variables_def)

lemma extract_values_dom:
  "dom (extract_values host m items vals) \<subseteq> dom vals \<union> fst ` set items"
proof (induction items arbitrary: vals)
  case Nil
  then show ?case by simp
next
  case (Cons item items)
  obtain name z3_var where item: "item = (name, z3_var)" by (cases item)
  show ?case
    using Cons.IH [of "case get_z3_value host m z3_var of None \<Rightarrow> vals | Some v \<Rightarrow> vals(name \<mapsto> v)"]
    by (auto simp: item split: option.splits if_splits)
qed

lemma extract_values_other:
  "n \<notin> fst ` set items \<Longrightarrow> extract_values host m items vals n = vals n"
proof (induction items arbitrary: vals)
  case Nil
  then show ?case by simp
next
  case (Cons item items)
  obtain name z3_var where item: "item = (name, z3_var)" by (cases item)
  from Cons.prems have "n \<noteq> name" and "n \<notin> fst ` set items" by (auto simp: item)
  then show ?case
    by (simp add: item Cons.IH split: option.splits)
qed

lemma extract_values_entry:
  "distinct (map fst items) \<Longrightarrow> (n, v) \<in> set items \<Longrightarrow>
     extract_values host m items vals n =
       (case get_z3_value host m v of None \<Rightarrow> vals n | Some x \<Rightarrow> Some x)"
proof (induction items arbitrary: vals)
  case Nil
  then show ?case by simp
next
  case (Cons item items)
  obtain name z3_var where item: "item = (name, z3_var)" by (cases item)
  show ?case
  proof (cases "(n, v) = item")
    case True
    with Cons.prems(1) have "n \<notin> fst ` set items" by (auto simp: item)
    with True show ?thesis
      by (simp add: item [symmetric] extract_values_other split: option.splits)
        (auto simp: item extract_values_other split: option.splits)
  next
    case False
    with Cons.prems have mem: "(n, v) \<in> set items" and d: "distinct (map fst items)"
      and ne: "n \<noteq> name"
      by (auto simp: item rev_image_eqI)
    show ?thesis
      by (simp add: item Cons.IH [OF d mem] ne split: option.splits)
  qed
qed

lemma add_each_eq:
  "add_each err cs s =
     (case List.find (\<lambda>c. err c \<noteq> None) cs of
        None \<Rightarrow> Inr (add_all cs s)
      | Some c \<Rightarrow> Inl (the (err c)))"
  by (induction cs arbitrary: s) (auto simp: add_all_Nil add_all_Cons split: option.splits)

lemma solve_Success:
  "solve z3 vars cs = Success rt \<Longrightarrow>
     check_sat z3 cs = Inr (fst rt) \<and>
     (if fst rt = sat then \<exists>m. snd rt = Some m \<and> get_model z3 cs = Inr m else snd rt = None)"
  by (auto simp: solve_def add_each_eq check_def add_all_def new_Solver_def
      split: sum.splits option.splits if_splits)

lemma solve_sat:
  "\<forall>c \<in> set cs. add_error z3 c = None \<Longrightarrow> check_sat z3 cs = Inr sat \<Longrightarrow>
   get_model z3 cs = Inr m \<Longrightarrow> solve z3 vars cs = Success (sat, Some m)"
  by (auto simp: solve_def add_each_eq check_def add_all_def new_Solver_def find_None_iff
      split: sum.splits option.splits if_splits)

lemma solve_problem_Success:
  assumes "solve_problem z3 host ev problem = Success sol"
  shows "\<exists>vars cs r mo. create_variables (variables problem) = Success vars \<and>
           create_constraints ev (constraints problem) vars = Success cs \<and>
           solve z3 vars cs = Success (r, mo) \<and>
           extract_solution host r mo vars = Success sol"
  using assms by (auto simp: solve_problem_def split: sum.splits)

lemma create_variables0: "create_variables (variables problem0) = Success vars0"
  by (simp add: problem0_def create_variables_def create_variable_eq sort_of_def vars0_def)

lemma create_constraints0:
  "create_constraints ev0 (constraints problem0) vars0 = Success [''x > 0'']"
  by (simp add: problem0_def create_constraints_def parse_constraint_def ev0_def)

lemma get_z3_value0_x: "get_z3_value host0 model0 (Const ''x'' IntSort) = Some (VInt 5)"
  by (simp add: get_z3_value_def model0_def host0_def is_bool_def is_int_def)

lemma get_z3_value0_y: "get_z3_value host0 model0 (Const ''y'' RealSort) = None"
  by (simp add: get_z3_value_def model0_def)

lemma get_z3_value0_z: "get_z3_value host0 model0 (Const ''z'' IntSort) = None"
  by (simp add: get_z3_value_def model0_def host0_def is_bool_def is_int_def)

lemma solve_problem0:
  "solve_problem (fixed_backend r m) host ev0 problem0 =
     extract_solution host r (if r = sat then Some m else None) vars0"
  by (simp add: solve_problem_def create_variables0 create_constraints0 solve_def
      fixed_backend_def check_def add_def new_Solver_def)

lemma extract_solution0:
  "extract_solution host0 sat (Some model0) vars0 =
     Success \<lparr>sol_values = [''x'' \<mapsto> VInt 5], sol_is_satisfiable = True, sol_status = ''sat''\<rparr>"
  by (simp add: extract_solution_def Let_def vars0_def get_z3_value0_x get_z3_value0_y
      get_z3_value0_z str_CheckSatResult_def)

lemma extract_solution_not_sat:
  "r \<noteq> sat \<Longrightarrow> extract_solution host r mo vars =
     Success \<lparr>sol_values = Map.empty, sol_is_satisfiable = False,
              sol_status = str_CheckSatResult r\<rparr>"
  by (simp add: extract_solution_def Let_def)

lemma create_constraints_loop_first_failure:
  assumes "\<forall>p \<in> set pre. \<exists>v. ev (expression p) (local_dict vars) = Inr v"
    and "ev (expression c) (local_dict vars) = Inl e"
  shows "create_constraints_loop ev (pre @ c # post) vars acc =
           Failure (ConstraintParseError (expression c) e)"
  using assms(1)
proof (induction pre arbitrary: acc)
  case Nil
  from assms(2) show ?case by (simp add: parse_constraint_def)
next
  case (Cons p pre)
  then obtain v where "ev (expression p) (local_dict vars) = Inr v" by auto
  with Cons show ?case by (simp add: parse_constraint_def)
qed

section \<open>Relationship pipeline: the entailment protocol\<close>

text \<open>
  Claim C1. For a query whose symbols parse to the formula \<open>Q\<close>, with \<open>F\<close> the formulas that
  \<^verbatim>\<open>add_relationship_assertions\<close> asserts: if the check of \<open>F\<close> returns \<open>unsat\<close> the result is
  the contradictory verdict (result false, is_satisfiable false), whatever the probes
  would return; otherwise, if the check of \<open>F\<close> with \<open>Not Q\<close> returns \<open>unsat\<close>, the verdict is
  confirmed (true, true); otherwise, if the check of \<open>F\<close> with \<open>Q\<close> returns \<open>unsat\<close>, it is
  contradicted (false, true); otherwise it is possible but not confirmed (false, true).
  A check that "is not unsatisfiable" is one that returns \<open>sat\<close> or \<open>unknown\<close>.
\<close>

theorem analyze_relationships_protocol:
  assumes "create_entities (relationships q) = Success entities"
    and "create_relations (relationships q) = Success relations"
    and "parse_query (query q) entities relations = Success Q"
    and "F = assertions (fst (add_relationship_assertions new_Solver (relationships q)
                                entities relations))"
  shows "(chk F = Inr unsat \<longrightarrow> analyze_relationships chk q = Success contradictory) \<and>
         (chk F \<in> {Inr sat, Inr unknown} \<and> chk (F @ [Z3Not Q]) = Inr unsat \<longrightarrow>
            analyze_relationships chk q = Success confirmed) \<and>
         (chk F \<in> {Inr sat, Inr unknown} \<and> chk (F @ [Z3Not Q]) \<in> {Inr sat, Inr unknown} \<and>
          chk (F @ [Q]) = Inr unsat \<longrightarrow>
            analyze_relationships chk q = Success contradicted) \<and>
         (chk F \<in> {Inr sat, Inr unknown} \<and> chk (F @ [Z3Not Q]) \<in> {Inr sat, Inr unknown} \<and>
          chk (F @ [Q]) \<in> {Inr sat, Inr unknown} \<longrightarrow>
            analyze_relationships chk q = Success possible)"
proof -
  from assms(1) have E: "entities = declared_entities (relationships q)"
    by (simp add: create_entities_eq)
  from assms(2) have R: "relations = declared_relations (relationships q)"
    by (simp add: create_relations_eq)
  from assms(4) have F: "F = fact_base (relationships q)"
    by (simp add: E R add_relationship_assertions_declared add_all_def new_Solver_def)
  from assms(3) have A: "analyze_relationships chk q = verdict chk F Q"
    by (simp add: analyze_relationships_unfold E R F)
  show ?thesis
    unfolding A by (auto simp: verdict_def)
qed

theorem analyze_relationships_protocol_witness:
  "create_entities (relationships query0) = Success (declared_entities rels0) \<and>
   create_relations (relationships query0) = Success (declared_relations rels0) \<and>
   parse_query (query query0) (declared_entities rels0) (declared_relations rels0) =
     Success (atom ''sibling'' ''Bob'' ''Alice'') \<and>
   analyze_relationships (\<lambda>fs. if length fs = 3 then Inr unsat else Inr sat) query0 =
     Success confirmed \<and>
   analyze_relationships (\<lambda>fs. Inr unsat) query0 = Success contradictory \<and>
   analyze_relationships (\<lambda>fs. Inr sat) query0 = Success possible \<and>
   analyze_relationships (\<lambda>fs. if last fs = atom ''sibling'' ''Bob'' ''Alice'' then Inr unsat
                               else Inr unknown) query0 = Success contradicted"
proof -
  have h1: "create_entities (relationships query0) = Success (declared_entities rels0)"
    by (simp add: create_entities_eq query0_def)
  have h2: "create_relations (relationships query0) = Success (declared_relations rels0)"
    by (simp add: create_relations_eq query0_def)
  have h3: "parse_query (query query0) (declared_entities rels0) (declared_relations rels0) =
     Success (atom ''sibling'' ''Bob'' ''Alice'')"
    by (simp add: query0_def parse_query0)
  have h4: "fact_base rels0 =
     assertions (fst (add_relationship_assertions new_Solver (relationships query0)
        (declared_entities rels0) (declared_relations rels0)))"
    by (simp add: query0_def add_relationship_assertions_declared add_all_def new_Solver_def)
  note P = analyze_relationships_protocol [OF h1 h2 h3 h4]
  have c1: "analyze_relationships (\<lambda>fs. if length fs = 3 then Inr unsat else Inr sat) query0 =
     Success confirmed"
    using P [of "\<lambda>fs. if length fs = 3 then Inr unsat else Inr sat"] by (simp add: fact_base0)
  have c2: "analyze_relationships (\<lambda>fs. Inr unsat) query0 = Success contradictory"
    using P [of "\<lambda>fs. Inr unsat"] by simp
  have c3: "analyze_relationships (\<lambda>fs. Inr sat) query0 = Success possible"
    using P [of "\<lambda>fs. Inr sat"] by simp
  have c4: "analyze_relationships (\<lambda>fs. if last fs = atom ''sibling'' ''Bob'' ''Alice'' then Inr unsat
                               else Inr unknown) query0 = Success contradicted"
    using P [of "\<lambda>fs. if last fs = atom ''sibling'' ''Bob'' ''Alice'' then Inr unsat
                               else Inr unknown"] by (simp add: fact_base0 atom_def symmetry_axiom_def)
  from h1 h2 h3 c1 c2 c3 c4 show ?thesis by simp
qed

text \<open>
  Claim C2. When some fact names the relation \<open>sibling\<close>, the assertions made are the
  formulas of the facts, in order, followed by the symmetry axiom, whatever the facts
  say. Consequently, for the single fact \<open>sibling(X, Y) = true\<close> and a query string that
  parses to \<open>sibling(Y, X)\<close>, a backend whose definite answers are sound, that returns
  on the fact base and gives a definite answer on the first probe, yields the confirmed
  verdict.
\<close>

theorem sibling_symmetry:
  "((\<exists>rel \<in> set rels. relation rel = ''sibling'') \<and>
    create_entities rels = Success entities \<and> create_relations rels = Success relations \<longrightarrow>
      add_relationship_assertions solver rels entities relations =
        (add_all (map fact_formula rels @ [symmetry_axiom ''sibling'']) solver, Success ())) \<and>
   (create_entities [\<lparr>person1 = X, person2 = Y, relation = ''sibling'', rel_value = True\<rparr>]
      = Success entities1 \<and>
    create_relations [\<lparr>person1 = X, person2 = Y, relation = ''sibling'', rel_value = True\<rparr>]
      = Success relations1 \<and>
    parse_query qs entities1 relations1 = Success (atom ''sibling'' Y X) \<and>
    sound_backend chk \<and>
    chk [atom ''sibling'' X Y, symmetry_axiom ''sibling''] \<in> {Inr sat, Inr unsat, Inr unknown} \<and>
    chk [atom ''sibling'' X Y, symmetry_axiom ''sibling'', Z3Not (atom ''sibling'' Y X)]
      \<in> {Inr sat, Inr unsat} \<longrightarrow>
      analyze_relationships chk
        \<lparr>relationships = [\<lparr>person1 = X, person2 = Y, relation = ''sibling'', rel_value = True\<rparr>],
         query = qs\<rparr> = Success confirmed)"
proof (intro conjI impI)
  assume a: "(\<exists>rel \<in> set rels. relation rel = ''sibling'') \<and>
    create_entities rels = Success entities \<and> create_relations rels = Success relations"
  then have "''sibling'' \<in> relation ` set rels" by force
  with a show "add_relationship_assertions solver rels entities relations =
        (add_all (map fact_formula rels @ [symmetry_axiom ''sibling'']) solver, Success ())"
    using add_relationship_assertions_declared [of solver rels]
    by (simp add: create_entities_eq create_relations_eq fact_base_def)
next
  let ?rels = "[\<lparr>person1 = X, person2 = Y, relation = ''sibling'', rel_value = True\<rparr>]"
  let ?F = "[atom ''sibling'' X Y, symmetry_axiom ''sibling'']"
  let ?Q = "atom ''sibling'' Y X"
  assume a: "create_entities ?rels = Success entities1 \<and>
    create_relations ?rels = Success relations1 \<and>
    parse_query qs entities1 relations1 = Success ?Q \<and>
    sound_backend chk \<and>
    chk ?F \<in> {Inr sat, Inr unsat, Inr unknown} \<and>
    chk [atom ''sibling'' X Y, symmetry_axiom ''sibling'', Z3Not ?Q] \<in> {Inr sat, Inr unsat}"
  then have parse: "parse_query qs (declared_entities ?rels) (declared_relations ?rels) = Success ?Q"
    by (simp add: create_entities_eq create_relations_eq)
  have F: "fact_base ?rels = ?F"
    by (simp add: fact_base_def fact_formula_def)
  from a have base: "chk ?F \<noteq> Inr unsat"
    using sibling_base_satisfiable [of "''sibling''" X Y] by (auto simp: sound_backend_def)
  from a have probe: "chk (?F @ [Z3Not ?Q]) = Inr unsat"
    using sibling_converse_entailed [of "''sibling''" X Y] by (auto simp: sound_backend_def)
  from a base have "\<exists>r. chk ?F = Inr r \<and> r \<noteq> unsat" by auto
  with probe show "analyze_relationships chk \<lparr>relationships = ?rels, query = qs\<rparr> = Success confirmed"
    by (auto simp: analyze_relationships_unfold parse F verdict_def)
qed

theorem sibling_symmetry_witness:
  "add_relationship_assertions new_Solver rels0 (declared_entities rels0) (declared_relations rels0) =
     (\<lparr>assertions = [atom ''sibling'' ''Alice'' ''Bob'', symmetry_axiom ''sibling''],
       scopes = [],
       calls = [Add (atom ''sibling'' ''Alice'' ''Bob''), Add (symmetry_axiom ''sibling'')]\<rparr>,
      Success ()) \<and>
   analyze_relationships ideal_backend
     \<lparr>relationships = [\<lparr>person1 = ''Alice'', person2 = ''Bob'', relation = ''sibling'',
                         rel_value = True\<rparr>],
      query = ''sibling(Bob, Alice)''\<rparr> = Success confirmed"
  using sibling_symmetry [of rels0 "declared_entities rels0" "declared_relations rels0" new_Solver
      "''Alice''" "''Bob''" "declared_entities rels0" "declared_relations rels0"
      "''sibling(Bob, Alice)''" ideal_backend]
    sound_ideal_backend parse_query0
  by (simp add: create_entities_eq create_relations_eq rels0_def [symmetric] ideal_backend_def
      add_all_def new_Solver_def) (simp add: rels0_def fact_formula_def)

text \<open>
  Claim C3, as the code has it. Each probe is the call sequence push, add, check, pop, and
  when the check returns, the pop leaves the assertions and the open scopes as they were
  before the probe. When the check of a probe raises, there is no pop: the function
  returns the failure "Error evaluating query" with the scope of the probe still open and
  the formula of the probe still asserted.
\<close>

theorem evaluate_query_scopes:
  "(\<forall>r1. chk (assertions s @ [Z3Not Q]) = Inr r1 \<and>
         (r1 = unsat \<or> (\<exists>r2. chk (assertions s @ [Q]) = Inr r2)) \<longrightarrow>
      fst (evaluate_query chk s Q) =
        s\<lparr>calls := calls s @
             (if r1 = unsat then [Push, Add (Z3Not Q), Check, Pop]
              else [Push, Add (Z3Not Q), Check, Pop, Push, Add Q, Check, Pop])\<rparr>) \<and>
   (\<forall>e. chk (assertions s @ [Z3Not Q]) = Inl e \<longrightarrow>
      evaluate_query chk s Q =
        (s\<lparr>assertions := assertions s @ [Z3Not Q],
           scopes := length (assertions s) # scopes s,
           calls := calls s @ [Push, Add (Z3Not Q), Check]\<rparr>,
         Failure (EvaluateError e))) \<and>
   (\<forall>r1 e. chk (assertions s @ [Z3Not Q]) = Inr r1 \<and> r1 \<noteq> unsat \<and>
           chk (assertions s @ [Q]) = Inl e \<longrightarrow>
      evaluate_query chk s Q =
        (s\<lparr>assertions := assertions s @ [Q],
           scopes := length (assertions s) # scopes s,
           calls := calls s @ [Push, Add (Z3Not Q), Check, Pop, Push, Add Q, Check]\<rparr>,
         Failure (EvaluateError e)))"
  by (auto simp: evaluate_query_eq)

theorem evaluate_query_scopes_witness:
  "fst (evaluate_query (\<lambda>fs. Inr sat) \<lparr>assertions = [], scopes = [], calls = []\<rparr>
          (atom ''sibling'' ''Bob'' ''Alice'')) =
     \<lparr>assertions = [], scopes = [],
      calls = [Push, Add (Z3Not (atom ''sibling'' ''Bob'' ''Alice'')), Check, Pop,
               Push, Add (atom ''sibling'' ''Bob'' ''Alice''), Check, Pop]\<rparr> \<and>
   evaluate_query (\<lambda>fs. if length fs = 1 \<and> fs \<noteq> [atom ''sibling'' ''Bob'' ''Alice''] then Inr sat else Inl (Raised ''timeout''))
       \<lparr>assertions = [], scopes = [], calls = []\<rparr> (atom ''sibling'' ''Bob'' ''Alice'') =
     (\<lparr>assertions = [atom ''sibling'' ''Bob'' ''Alice''], scopes = [0],
       calls = [Push, Add (Z3Not (atom ''sibling'' ''Bob'' ''Alice'')), Check, Pop,
                Push, Add (atom ''sibling'' ''Bob'' ''Alice''), Check]\<rparr>,
      Failure (EvaluateError (Raised ''timeout'')))"
  using evaluate_query_scopes [of "\<lambda>fs. Inr sat" "\<lparr>assertions = [], scopes = [], calls = []\<rparr>"
      "atom ''sibling'' ''Bob'' ''Alice''"]
    evaluate_query_scopes [of "\<lambda>fs. if length fs = 1 \<and> fs \<noteq> [atom ''sibling'' ''Bob'' ''Alice''] then Inr sat else Inl (Raised ''timeout'')"
      "\<lparr>assertions = [], scopes = [], calls = []\<rparr>" "atom ''sibling'' ''Bob'' ''Alice''"]
  by (simp add: atom_def)

text \<open>
  The claim C3 as stated fails: with a check that raises, the solver that
  \<^verbatim>\<open>evaluate_query\<close> leaves behind has one more open scope, holds the negated query, and
  its last call is the check.
\<close>

theorem probe_scope_not_restored_counterexample:
  "evaluate_query (\<lambda>fs. Inl (Raised ''canceled''))
     \<lparr>assertions = [atom ''sibling'' ''Alice'' ''Bob''], scopes = [], calls = []\<rparr>
     (atom ''sibling'' ''Bob'' ''Alice'') =
   (\<lparr>assertions = [atom ''sibling'' ''Alice'' ''Bob'', Z3Not (atom ''sibling'' ''Bob'' ''Alice'')],
     scopes = [1],
     calls = [Push, Add (Z3Not (atom ''sibling'' ''Bob'' ''Alice'')), Check]\<rparr>,
    Failure (EvaluateError (Raised ''canceled'')))"
  by (simp add: evaluate_query_eq)

text \<open>
  Claim C4, as the code has it. A check result is only ever compared with \<open>unsat\<close>, so
  \<open>unknown\<close> is handled exactly like \<open>sat\<close>: replacing every \<open>unknown\<close> answer of the
  backend by \<open>sat\<close> does not change the result. In particular, when all checks return
  \<open>unknown\<close> and the query parses, the result is the verdict "possible but not
  confirmed", not an error.
\<close>

theorem unknown_handled_as_sat:
  "analyze_relationships chk q = analyze_relationships (unknown_as_sat chk) q \<and>
   (create_entities (relationships q) = Success entities \<and>
    create_relations (relationships q) = Success relations \<and>
    parse_query (query q) entities relations = Success Q \<and>
    (\<forall>fs. chk fs = Inr unknown) \<longrightarrow>
      analyze_relationships chk q = Success possible)"
proof (intro conjI impI)
  show "analyze_relationships chk q = analyze_relationships (unknown_as_sat chk) q"
    by (simp add: analyze_relationships_unfold verdict_unknown_as_sat [of chk] split: sum.splits)
next
  assume a: "create_entities (relationships q) = Success entities \<and>
    create_relations (relationships q) = Success relations \<and>
    parse_query (query q) entities relations = Success Q \<and>
    (\<forall>fs. chk fs = Inr unknown)"
  then have "parse_query (query q) (declared_entities (relationships q))
      (declared_relations (relationships q)) = Success Q"
    by (simp add: create_entities_eq create_relations_eq)
  with a show "analyze_relationships chk q = Success possible"
    by (simp add: analyze_relationships_unfold verdict_def)
qed

theorem unknown_handled_as_sat_witness:
  "analyze_relationships (unknown_as_sat (\<lambda>fs. Inr unknown)) query0 = Success possible \<and>
   analyze_relationships (\<lambda>fs. Inr unknown) query0 = Success possible"
proof -
  have h: "create_entities (relationships query0) = Success (declared_entities rels0) \<and>
    create_relations (relationships query0) = Success (declared_relations rels0) \<and>
    parse_query (query query0) (declared_entities rels0) (declared_relations rels0) =
      Success (atom ''sibling'' ''Bob'' ''Alice'') \<and>
    (\<forall>fs::BoolRef list. (Inr unknown :: exn + CheckSatResult) = Inr unknown)"
    by (simp add: create_entities_eq create_relations_eq query0_def parse_query0)
  note T = unknown_handled_as_sat [of "\<lambda>fs. Inr unknown" query0 "declared_entities rels0"
      "declared_relations rels0" "atom ''sibling'' ''Bob'' ''Alice''"]
  from T h have 1: "analyze_relationships (\<lambda>fs. Inr unknown) query0 = Success possible"
    by blast
  from T have 2: "analyze_relationships (unknown_as_sat (\<lambda>fs. Inr unknown)) query0 =
      analyze_relationships (\<lambda>fs. Inr unknown) query0"
    by simp
  from 1 2 show ?thesis by simp
qed

text \<open>
  The claim C4 as stated fails: a backend that answers \<open>unknown\<close> to every check gives
  the verdict with result false and is_satisfiable true.
\<close>

theorem unknown_not_surfaced_counterexample:
  "analyze_relationships (\<lambda>fs. Inr unknown) query0 = Success possible"
  by (simp add: analyze_query0 verdict_def)

section \<open>Query parsing\<close>




section \<open>The constraint pipeline\<close>

text \<open>
  Claim C5. When \<^verbatim>\<open>solve_problem\<close> returns a solution, the backend check on the compiled
  constraints returned some result \<open>r\<close>; the status of the solution is the string form of
  \<open>r\<close> (\<open>sat\<close>, \<open>unsat\<close> or \<open>unknown\<close>), and is_satisfiable holds exactly when \<open>r\<close> is
  \<open>sat\<close>. In particular \<open>unknown\<close> gives is_satisfiable false with status "unknown".
\<close>

theorem solution_status:
  assumes "solve_problem z3 host ev problem = Success sol"
  shows "\<exists>vars cs r.
           create_variables (variables problem) = Success vars \<and>
           create_constraints ev (constraints problem) vars = Success cs \<and>
           check_sat z3 cs = Inr r \<and>
           sol_status sol = str_CheckSatResult r \<and>
           sol_status sol = (case r of sat \<Rightarrow> ''sat'' | unsat \<Rightarrow> ''unsat'' | unknown \<Rightarrow> ''unknown'') \<and>
           (sol_is_satisfiable sol \<longleftrightarrow> r = sat) \<and>
           (r = unknown \<longrightarrow> \<not> sol_is_satisfiable sol \<and> sol_status sol = ''unknown'')"
proof -
  from solve_problem_Success [OF assms] obtain vars cs r mo where
    v: "create_variables (variables problem) = Success vars" and
    c: "create_constraints ev (constraints problem) vars = Success cs" and
    s: "solve z3 vars cs = Success (r, mo)" and
    x: "extract_solution host r mo vars = Success sol"
    by blast
  from solve_Success [OF s] have chk: "check_sat z3 cs = Inr r" by simp
  from x have "sol_status sol = str_CheckSatResult r" and "sol_is_satisfiable sol \<longleftrightarrow> r = sat"
    by (auto simp: extract_solution_def Let_def)
  with v c chk show ?thesis
    by (auto simp: str_CheckSatResult_def split: CheckSatResult.splits)
qed

theorem solution_status_witness:
  "solve_problem (fixed_backend unknown model0) host0 ev0 problem0 =
     Success \<lparr>sol_values = Map.empty, sol_is_satisfiable = False, sol_status = ''unknown''\<rparr> \<and>
   (\<exists>vars cs r.
      create_variables (variables problem0) = Success vars \<and>
      create_constraints ev0 (constraints problem0) vars = Success cs \<and>
      check_sat (fixed_backend unknown model0) cs = Inr r \<and>
      ''unknown'' = str_CheckSatResult r)"
proof -
  have h: "solve_problem (fixed_backend unknown model0) host0 ev0 problem0 =
     Success \<lparr>sol_values = Map.empty, sol_is_satisfiable = False, sol_status = ''unknown''\<rparr>"
    by (simp add: solve_problem0 extract_solution_not_sat str_CheckSatResult_def)
  from solution_status [OF h] h show ?thesis
    by auto
qed

text \<open>
  Claim C7. When the evaluation of a constraint's expression raises and that of every
  earlier constraint of the batch succeeds, \<^verbatim>\<open>create_constraints\<close> fails with the parse
  error of that expression, which carries the expression text. The result does not
  depend on the constraints after it nor on what the evaluator would do with them, and it
  is a failure, not a list. Hence a batch with a malformed constraint always fails with the
  parse error of one of its malformed expressions.
\<close>

theorem create_constraints_fail_fast:
  "((\<forall>p \<in> set pre. \<exists>v. ev (expression p) (local_dict vars) = Inr v) \<and>
    ev (expression c) (local_dict vars) = Inl e \<longrightarrow>
      create_constraints ev (pre @ c # post) vars =
        Failure (ConstraintParseError (expression c) e) \<and>
      (\<forall>ev' post'.
         (\<forall>p \<in> set (pre @ [c]). ev' (expression p) = ev (expression p)) \<longrightarrow>
           create_constraints ev' (pre @ c # post') vars =
             Failure (ConstraintParseError (expression c) e))) \<and>
   ((\<exists>c \<in> set cs. \<exists>e. ev (expression c) (local_dict vars) = Inl e) \<longrightarrow>
      (\<exists>c \<in> set cs. \<exists>e. ev (expression c) (local_dict vars) = Inl e \<and>
         create_constraints ev cs vars = Failure (ConstraintParseError (expression c) e)))"
proof (intro conjI impI allI)
  assume a: "(\<forall>p \<in> set pre. \<exists>v. ev (expression p) (local_dict vars) = Inr v) \<and>
    ev (expression c) (local_dict vars) = Inl e"
  then show "create_constraints ev (pre @ c # post) vars =
        Failure (ConstraintParseError (expression c) e)"
    by (simp add: create_constraints_def create_constraints_loop_first_failure)
  fix ev' :: "'a evaluator" and post'
  assume same: "\<forall>p \<in> set (pre @ [c]). ev' (expression p) = ev (expression p)"
  with a have "\<forall>p \<in> set pre. \<exists>v. ev' (expression p) (local_dict vars) = Inr v"
    and "ev' (expression c) (local_dict vars) = Inl e"
    by auto
  then show "create_constraints ev' (pre @ c # post') vars =
      Failure (ConstraintParseError (expression c) e)"
    by (simp add: create_constraints_def create_constraints_loop_first_failure)
next
  let ?bad = "\<lambda>c. \<exists>e. ev (expression c) (local_dict vars) = Inl e"
  assume "\<exists>c \<in> set cs. \<exists>e. ev (expression c) (local_dict vars) = Inl e"
  then have "\<exists>c \<in> set cs. ?bad c" .
  from split_list_first_prop [OF this] obtain pre c post where
    cs: "cs = pre @ c # post" and bad: "?bad c" and good: "\<forall>p \<in> set pre. \<not> ?bad p"
    by blast
  from bad obtain e where e: "ev (expression c) (local_dict vars) = Inl e" by blast
  from good have "\<forall>p \<in> set pre. \<exists>v. ev (expression p) (local_dict vars) = Inr v"
    by (metis sum.exhaust)
  then have "create_constraints ev cs vars = Failure (ConstraintParseError (expression c) e)"
    using e by (simp add: create_constraints_def cs create_constraints_loop_first_failure)
  with e cs show "\<exists>c \<in> set cs. \<exists>e. ev (expression c) (local_dict vars) = Inl e \<and>
         create_constraints ev cs vars = Failure (ConstraintParseError (expression c) e)"
    by auto
qed

theorem create_constraints_fail_fast_witness:
  "create_constraints ev0
     [\<lparr>expression = ''x > 0'', c_description = ''''\<rparr>,
      \<lparr>expression = ''x >'', c_description = ''''\<rparr>,
      \<lparr>expression = ''x < 5'', c_description = ''''\<rparr>] vars0 =
   Failure (ConstraintParseError ''x >'' (Raised ''invalid syntax''))"
  using create_constraints_fail_fast [of "[\<lparr>expression = ''x > 0'', c_description = ''''\<rparr>]"
      ev0 vars0 "\<lparr>expression = ''x >'', c_description = ''''\<rparr>" "Raised ''invalid syntax''"
      "[\<lparr>expression = ''x < 5'', c_description = ''''\<rparr>]" "[]"]
  by (simp add: ev0_def)

text \<open>
  Claim C9. When the symbols are declared, the constraints compile and are asserted, the
  check returns \<open>sat\<close> and the backend yields the model \<open>m\<close>, then \<^verbatim>\<open>solve_problem\<close> succeeds with
  a satisfiable solution whose mapping holds, for every entry \<open>(n, v)\<close> of the symbol
  table, exactly what \<^verbatim>\<open>get_z3_value\<close> yields for \<open>v\<close>: no entry for \<open>n\<close> when the model does
  not bind \<open>v\<close> or the conversion fails, and the converted value otherwise.
\<close>

theorem unbound_variables_omitted:
  assumes "create_variables (variables problem) = Success vars"
    and "create_constraints ev (constraints problem) vars = Success cs"
    and "\<forall>c \<in> set cs. add_error z3 c = None"
    and "check_sat z3 cs = Inr sat"
    and "get_model z3 cs = Inr m"
  shows "\<exists>sol. solve_problem z3 host ev problem = Success sol \<and> sol_is_satisfiable sol \<and>
           (\<forall>(n, v) \<in> set vars.
              sol_values sol n = get_z3_value host m v \<and>
              (m v = None \<longrightarrow> n \<notin> dom (sol_values sol)) \<and>
              (get_z3_value host m v = None \<longrightarrow> n \<notin> dom (sol_values sol)) \<and>
              (\<forall>x. get_z3_value host m v = Some x \<longrightarrow> sol_values sol n = Some x))"
proof -
  let ?sol = "\<lparr>sol_values = extract_values host m vars Map.empty, sol_is_satisfiable = True,
               sol_status = str_CheckSatResult sat\<rparr>"
  from assms have run: "solve_problem z3 host ev problem = Success ?sol"
    by (simp add: solve_problem_def solve_sat extract_solution_def Let_def)
  have d: "distinct (map fst vars)"
    using assms(1) by (rule create_variables_distinct)
  have "sol_values ?sol n = get_z3_value host m v" if "(n, v) \<in> set vars" for n v
    using extract_values_entry [OF d that, of host m Map.empty] by (simp split: option.splits)
  moreover have "get_z3_value host m v = None" if "m v = None" for v
    using that by (simp add: get_z3_value_def)
  ultimately have "\<forall>(n, v) \<in> set vars.
              sol_values ?sol n = get_z3_value host m v \<and>
              (m v = None \<longrightarrow> n \<notin> dom (sol_values ?sol)) \<and>
              (get_z3_value host m v = None \<longrightarrow> n \<notin> dom (sol_values ?sol)) \<and>
              (\<forall>x. get_z3_value host m v = Some x \<longrightarrow> sol_values ?sol n = Some x)"
    by (auto simp: domIff)
  with run show ?thesis by simp
qed

theorem unbound_variables_omitted_witness:
  "solve_problem (fixed_backend sat model0) host0 ev0 problem0 =
     Success \<lparr>sol_values = [''x'' \<mapsto> VInt 5], sol_is_satisfiable = True, sol_status = ''sat''\<rparr> \<and>
   model0 (Const ''y'' RealSort) = None \<and>
   model0 (Const ''z'' IntSort) = Some \<lparr>str_of = ''(root-obj 1)'', is_true = False\<rparr> \<and>
   (\<exists>sol. solve_problem (fixed_backend sat model0) host0 ev0 problem0 = Success sol \<and>
      sol_values sol ''x'' = Some (VInt 5) \<and> sol_values sol ''y'' = None \<and>
      sol_values sol ''z'' = None)"
proof -
  have h3: "\<forall>c \<in> set [''x > 0'']. add_error (fixed_backend sat model0) c = None"
    and h4: "check_sat (fixed_backend sat model0) [''x > 0''] = Inr sat"
    and h5: "get_model (fixed_backend sat model0) [''x > 0''] = Inr model0"
    by (simp_all add: fixed_backend_def)
  from unbound_variables_omitted [OF create_variables0 create_constraints0 h3 h4 h5, of host0]
  obtain sol where
    s: "solve_problem (fixed_backend sat model0) host0 ev0 problem0 = Success sol" and
    v: "\<forall>(n, v) \<in> set vars0. sol_values sol n = get_z3_value host0 model0 v"
    by auto
  from v have "sol_values sol ''x'' = Some (VInt 5)" and "sol_values sol ''y'' = None"
    and "sol_values sol ''z'' = None"
    by (simp_all add: vars0_def get_z3_value0_x get_z3_value0_y get_z3_value0_z)
  with s show ?thesis
    by (simp add: solve_problem0 extract_solution0 model0_def)
qed

text \<open>
  Claim C10. Every key of the mapping of a returned solution is the name of a declared
  variable, whatever the backend model contains, and the mapping is empty when the
  solution is not satisfiable (status \<open>unsat\<close> or \<open>unknown\<close>).
\<close>

theorem solution_keys_declared:
  assumes "solve_problem z3 host ev problem = Success sol"
  shows "dom (sol_values sol) \<subseteq> var_name ` set (variables problem) \<and>
         (\<not> sol_is_satisfiable sol \<longrightarrow> sol_values sol = Map.empty) \<and>
         (sol_status sol = ''unsat'' \<or> sol_status sol = ''unknown'' \<longrightarrow>
            sol_values sol = Map.empty)"
proof -
  from solve_problem_Success [OF assms] obtain vars cs r mo where
    v: "create_variables (variables problem) = Success vars" and
    x: "extract_solution host r mo vars = Success sol"
    by blast
  have keys: "fst ` set vars = var_name ` set (variables problem)"
    using v by (rule create_variables_keys)
  show ?thesis
  proof (cases "r = sat")
    case True
    with x have vals: "sol_values sol =
        (case mo of Some m \<Rightarrow> extract_values host m vars Map.empty | None \<Rightarrow> Map.empty)"
      and "sol_is_satisfiable sol" and "sol_status sol = ''sat''"
      by (auto simp: extract_solution_def Let_def str_CheckSatResult_def split: option.splits)
    moreover have "dom (sol_values sol) \<subseteq> var_name ` set (variables problem)"
      unfolding vals using extract_values_dom [of host _ vars Map.empty] keys
      by (auto split: option.splits)
    ultimately show ?thesis by simp
  next
    case False
    with x show ?thesis
      by (auto simp: extract_solution_not_sat)
  qed
qed

theorem solution_keys_declared_witness:
  "model0 (Const ''aux'' IntSort) \<noteq> None \<and>
   (\<exists>sol. solve_problem (fixed_backend sat model0) host0 ev0 problem0 = Success sol \<and>
      dom (sol_values sol) = {''x''} \<and>
      dom (sol_values sol) \<subseteq> var_name ` set (variables problem0)) \<and>
   (\<exists>sol. solve_problem (fixed_backend unsat model0) host0 ev0 problem0 = Success sol \<and>
      sol_values sol = Map.empty)"
proof -
  have h1: "solve_problem (fixed_backend sat model0) host0 ev0 problem0 =
     Success \<lparr>sol_values = [''x'' \<mapsto> VInt 5], sol_is_satisfiable = True, sol_status = ''sat''\<rparr>"
    by (simp add: solve_problem0 extract_solution0)
  have h2: "solve_problem (fixed_backend unsat model0) host0 ev0 problem0 =
     Success \<lparr>sol_values = Map.empty, sol_is_satisfiable = False, sol_status = ''unsat''\<rparr>"
    by (simp add: solve_problem0 extract_solution_not_sat str_CheckSatResult_def)
  from solution_keys_declared [OF h1] solution_keys_declared [OF h2] h1 h2 show ?thesis
    by (simp add: model0_def)
qed

end
